theory Spec2Isabelle
  imports Complex_Main
begin

section \<open>Numbers of the data frame\<close>

text \<open>
  Every numeric column of the data frame holds float64 values. The properties studied
  here turn on the special values of that type (NaN, the infinities that a division by
  zero produces) and not on rounding, so a number is modelled as an exact real or one
  of the three special values. The operations follow the IEEE-754 rules numpy applies
  to the special values; finite results are exact (no rounding, no overflow), and the
  two zeros are identified (a division of a non-zero number by zero takes the sign of
  the numerator).

  The library behaviour modelled is that of pandas before version 3 (1.5 to 2.3), the
  versions on which the program runs: the slice assignment of the crossover strategy
  writes through to the column, and \<^verbatim>\<open>pct_change\<close> fills missing values forward.
\<close>

datatype fl = Fin real | PInf | NInf | NaN

definition inf_of_sign :: "real \<Rightarrow> fl" where
  "inf_of_sign s = (if 0 < s then PInf else if s < 0 then NInf else NaN)"

fun fl_neg :: "fl \<Rightarrow> fl" where
  "fl_neg (Fin a) = Fin (- a)"
| "fl_neg PInf = NInf"
| "fl_neg NInf = PInf"
| "fl_neg NaN = NaN"

fun fl_add :: "fl \<Rightarrow> fl \<Rightarrow> fl" where
  "fl_add (Fin a) (Fin b) = Fin (a + b)"
| "fl_add NaN y = NaN"
| "fl_add x NaN = NaN"
| "fl_add PInf NInf = NaN"
| "fl_add NInf PInf = NaN"
| "fl_add PInf y = PInf"
| "fl_add x PInf = PInf"
| "fl_add NInf y = NInf"
| "fl_add x NInf = NInf"

definition fl_sub :: "fl \<Rightarrow> fl \<Rightarrow> fl" where
  "fl_sub x y = fl_add x (fl_neg y)"

fun fl_mul :: "fl \<Rightarrow> fl \<Rightarrow> fl" where
  "fl_mul (Fin a) (Fin b) = Fin (a * b)"
| "fl_mul NaN y = NaN"
| "fl_mul x NaN = NaN"
| "fl_mul PInf (Fin b) = inf_of_sign b"
| "fl_mul NInf (Fin b) = inf_of_sign (- b)"
| "fl_mul (Fin a) PInf = inf_of_sign a"
| "fl_mul (Fin a) NInf = inf_of_sign (- a)"
| "fl_mul PInf PInf = PInf"
| "fl_mul PInf NInf = NInf"
| "fl_mul NInf PInf = NInf"
| "fl_mul NInf NInf = PInf"

fun fl_div :: "fl \<Rightarrow> fl \<Rightarrow> fl" where
  "fl_div (Fin a) (Fin b) = (if b = 0 then inf_of_sign a else Fin (a / b))"
| "fl_div NaN y = NaN"
| "fl_div x NaN = NaN"
| "fl_div (Fin a) PInf = Fin 0"
| "fl_div (Fin a) NInf = Fin 0"
| "fl_div PInf (Fin b) = (if 0 \<le> b then PInf else NInf)"
| "fl_div NInf (Fin b) = (if 0 \<le> b then NInf else PInf)"
| "fl_div PInf y = NaN"
| "fl_div NInf y = NaN"

fun fl_sqrt :: "fl \<Rightarrow> fl" where
  "fl_sqrt (Fin a) = (if a < 0 then NaN else Fin (sqrt a))"
| "fl_sqrt PInf = PInf"
| "fl_sqrt NInf = NaN"
| "fl_sqrt NaN = NaN"

text \<open>Comparisons: every ordered comparison with NaN is false, and NaN differs from
  everything, itself included.\<close>

fun fl_lt :: "fl \<Rightarrow> fl \<Rightarrow> bool" where
  "fl_lt (Fin a) (Fin b) = (a < b)"
| "fl_lt NaN y = False"
| "fl_lt x NaN = False"
| "fl_lt x NInf = False"
| "fl_lt PInf y = False"
| "fl_lt NInf y = True"
| "fl_lt x PInf = True"

definition fl_gt :: "fl \<Rightarrow> fl \<Rightarrow> bool" where
  "fl_gt x y = fl_lt y x"

definition fl_le :: "fl \<Rightarrow> fl \<Rightarrow> bool" where
  "fl_le x y = (fl_lt x y \<or> (x = y \<and> x \<noteq> NaN))"

definition fl_ne :: "fl \<Rightarrow> fl \<Rightarrow> bool" where
  "fl_ne x y = (x = NaN \<or> y = NaN \<or> x \<noteq> y)"

definition fl_sum :: "fl list \<Rightarrow> fl" where
  "fl_sum xs = foldl fl_add (Fin 0) xs"

section \<open>Series operations of pandas\<close>

text \<open>
  A column is a list, one entry per bar, in date order. The dates are the unique,
  increasing index of the frame, so a bar is identified with its position in the list.

  \<open>diff\<close> is \<^verbatim>\<open>Series.diff()\<close>: NaN at the first bar, then the difference to the
  previous bar. On the integer column Signal the result is a float column; its values
  are whole numbers or NaN, modelled as \<open>int option\<close> with \<open>None\<close> for NaN.
\<close>

definition diff :: "fl list \<Rightarrow> fl list" where
  "diff xs = map (\<lambda>i. if i = 0 then NaN else fl_sub (xs ! i) (xs ! (i - 1))) [0..<length xs]"

definition diff_int :: "int list \<Rightarrow> int option list" where
  "diff_int xs = map (\<lambda>i. if i = 0 then None else Some (xs ! i - xs ! (i - 1))) [0..<length xs]"

text \<open>
  \<^verbatim>\<open>rolling(window=period).mean()\<close>: undefined (NaN) until the window is full, then the
  mean of the last \<open>period\<close> entries; a NaN inside the window makes the mean NaN, and so
  does a window of no entries. The entries of a price column are finite or missing
  (NaN); on those the sliding sum pandas keeps is the sum of the window. An infinite
  entry, which the window functions of pandas read as missing, does not occur in a
  price column; the model is not meant for it.
\<close>

definition rolling_mean :: "nat \<Rightarrow> fl list \<Rightarrow> fl list" where
  "rolling_mean period xs =
     map (\<lambda>i. if i + 1 < period then NaN
              else fl_div (fl_sum (take period (drop (i + 1 - period) xs))) (Fin (real period)))
         [0..<length xs]"

section \<open>Indicators\<close>

definition calculate_ma :: "fl list \<Rightarrow> nat \<Rightarrow> fl list" where
  "calculate_ma closes period = rolling_mean period closes"

text \<open>The two rolling means inside \<^verbatim>\<open>calculate_rsi\<close>, named as the source names them.\<close>

definition rsi_gain :: "fl list \<Rightarrow> nat \<Rightarrow> fl list" where
  "rsi_gain closes period =
     rolling_mean period (map (\<lambda>d. if fl_gt d (Fin 0) then d else Fin 0) (diff closes))"

definition rsi_loss :: "fl list \<Rightarrow> nat \<Rightarrow> fl list" where
  "rsi_loss closes period =
     rolling_mean period (map (\<lambda>d. fl_neg (if fl_lt d (Fin 0) then d else Fin 0)) (diff closes))"

definition rsi_of_rs :: "fl \<Rightarrow> fl" where
  "rsi_of_rs rs = fl_sub (Fin 100) (fl_div (Fin 100) (fl_add (Fin 1) rs))"

definition calculate_rsi :: "fl list \<Rightarrow> nat \<Rightarrow> fl list" where
  "calculate_rsi closes period =
     map (\<lambda>(g, l). rsi_of_rs (fl_div g l)) (zip (rsi_gain closes period) (rsi_loss closes period))"

section \<open>Strategies\<close>

text \<open>The exceptions the program can run into.\<close>

datatype error = IndexError | ValueError | ZeroDivisionError

text \<open>
  A row of the frame after a strategy has run: the close, the strategy's Signal and
  Position, the difference of Signal to the previous bar.
\<close>

record row =
  Close :: fl
  Signal :: int
  Position :: "int option"

definition make_rows :: "fl list \<Rightarrow> int list \<Rightarrow> row list" where
  "make_rows closes signals =
     map (\<lambda>(c, s, p). \<lparr>Close = c, Signal = s, Position = p\<rparr>)
         (zip closes (zip signals (diff_int signals)))"

text \<open>
  \<^verbatim>\<open>ma_crossover_strategy\<close> sets Signal to 0 and then overwrites it from the bar at
  index \<open>short_period\<close> on; a comparison with an undefined average is false. When
  \<open>short_period\<close> exceeds the number of bars the slice is empty, but pandas takes its
  length to be the negative difference, finds it unequal to the length of the empty
  value, and the assignment raises \<^verbatim>\<open>ValueError\<close>. With \<open>short_period\<close> equal to the
  number of bars nothing is written and nothing is raised.
  \<^verbatim>\<open>rsi_strategy\<close> writes 1 below the oversold level and then -1 above the overbought
  level, the second write winning; it raises nothing.
\<close>

definition ma_signal :: "fl list \<Rightarrow> nat \<Rightarrow> nat \<Rightarrow> error + int list" where
  "ma_signal closes short_period long_period =
     (if length closes < short_period then Inl ValueError
      else Inr (map (\<lambda>i. if i < short_period then 0
                         else if fl_gt (calculate_ma closes short_period ! i)
                                       (calculate_ma closes long_period ! i) then 1 else 0)
                    [0..<length closes]))"

definition ma_crossover_strategy :: "fl list \<Rightarrow> nat \<Rightarrow> nat \<Rightarrow> error + row list" where
  "ma_crossover_strategy closes short_period long_period =
     (case ma_signal closes short_period long_period of
        Inl e \<Rightarrow> Inl e
      | Inr signals \<Rightarrow> Inr (make_rows closes signals))"

text \<open>The rows of the frame a strategy returned; none when the call raised.\<close>

definition frame_of :: "error + row list \<Rightarrow> row list" where
  "frame_of res = (case res of Inl e \<Rightarrow> [] | Inr data \<Rightarrow> data)"

definition rsi_signal_of :: "real \<Rightarrow> real \<Rightarrow> fl \<Rightarrow> int" where
  "rsi_signal_of oversold overbought r =
     (if fl_gt r (Fin overbought) then - 1 else if fl_lt r (Fin oversold) then 1 else 0)"

definition rsi_signal :: "fl list \<Rightarrow> nat \<Rightarrow> real \<Rightarrow> real \<Rightarrow> int list" where
  "rsi_signal closes rsi_period oversold overbought =
     map (rsi_signal_of oversold overbought) (calculate_rsi closes rsi_period)"

definition rsi_strategy :: "fl list \<Rightarrow> nat \<Rightarrow> real \<Rightarrow> real \<Rightarrow> row list" where
  "rsi_strategy closes rsi_period oversold overbought =
     make_rows closes (rsi_signal closes rsi_period oversold overbought)"

section \<open>Portfolio simulation\<close>

text \<open>
  The loop of \<^verbatim>\<open>calculate_performance_metrics\<close> keeps three variables; a bar is a buy
  signal when its Position is 1 and a sell signal when it is -1.
\<close>

record sim_state =
  portfolio_value :: fl
  shares :: fl
  position :: int

definition is_buy :: "row \<Rightarrow> bool" where
  "is_buy r = (Position r = Some 1)"

definition is_sell :: "row \<Rightarrow> bool" where
  "is_sell r = (Position r = Some (- 1))"

definition sim_step :: "sim_state \<Rightarrow> row \<Rightarrow> sim_state" where
  "sim_step s r =
     (if is_buy r \<and> position s = 0 then
        s\<lparr>shares := fl_div (portfolio_value s) (Close r), position := 1\<rparr>
      else if is_sell r \<and> position s = 1 then
        s\<lparr>portfolio_value := fl_mul (shares s) (Close r), shares := Fin 0, position := 0\<rparr>
      else s)"

definition bar_value :: "sim_state \<Rightarrow> row \<Rightarrow> fl" where
  "bar_value s r = (if position s = 1 then fl_mul (shares s) (Close r) else portfolio_value s)"

definition init_state :: "real \<Rightarrow> sim_state" where
  "init_state initial_capital =
     \<lparr>portfolio_value = Fin initial_capital, shares = Fin 0, position = 0\<rparr>"

text \<open>The states after each bar, and the values appended to \<^verbatim>\<open>portfolio_values\<close>.\<close>

fun sim_states :: "sim_state \<Rightarrow> row list \<Rightarrow> sim_state list" where
  "sim_states s [] = []"
| "sim_states s (r # rs) = sim_step s r # sim_states (sim_step s r) rs"

fun simulate :: "sim_state \<Rightarrow> row list \<Rightarrow> fl list" where
  "simulate s [] = []"
| "simulate s (r # rs) = bar_value (sim_step s r) r # simulate (sim_step s r) rs"

definition portfolio_values :: "row list \<Rightarrow> real \<Rightarrow> fl list" where
  "portfolio_values data initial_capital = simulate (init_state initial_capital) data"

text \<open>
  Which branch of the loop body a bar takes: the first converts cash to shares, the
  second converts shares to cash, the third leaves the three variables alone.
\<close>

datatype action = Enter | Exit | Hold

definition sim_action :: "sim_state \<Rightarrow> row \<Rightarrow> action" where
  "sim_action s r =
     (if is_buy r \<and> position s = 0 then Enter
      else if is_sell r \<and> position s = 1 then Exit
      else Hold)"

fun sim_actions :: "sim_state \<Rightarrow> row list \<Rightarrow> action list" where
  "sim_actions s [] = []"
| "sim_actions s (r # rs) = sim_action s r # sim_actions (sim_step s r) rs"

text \<open>Entries and exits strictly alternate, the next one allowed being fixed by the
  position \<open>p\<close> held before the first bar.\<close>

fun alternating :: "int \<Rightarrow> action list \<Rightarrow> bool" where
  "alternating p [] = True"
| "alternating p (Hold # as) = alternating p as"
| "alternating p (Enter # as) = (p = 0 \<and> alternating 1 as)"
| "alternating p (Exit # as) = (p = 1 \<and> alternating 0 as)"

section \<open>Metrics\<close>

text \<open>
  \<^verbatim>\<open>pct_change()\<close> first fills every missing value with the last value before it
  that is not missing (a leading missing value stays), then takes the simple return to
  the previous bar, NaN at the first bar; \<^verbatim>\<open>dropna()\<close> removes the NaN entries.
\<close>

fun ffill_from :: "fl \<Rightarrow> fl list \<Rightarrow> fl list" where
  "ffill_from prev [] = []"
| "ffill_from prev (x # xs) =
     (if x = NaN then prev # ffill_from prev xs else x # ffill_from x xs)"

definition ffill :: "fl list \<Rightarrow> fl list" where
  "ffill xs = ffill_from NaN xs"

definition pct_change :: "fl list \<Rightarrow> fl list" where
  "pct_change vs =
     (case ffill vs of
        [] \<Rightarrow> []
      | v # rest \<Rightarrow>
          NaN # map (\<lambda>(cur, prev). fl_sub (fl_div cur prev) (Fin 1)) (zip rest (v # rest)))"

definition dropna :: "fl list \<Rightarrow> fl list" where
  "dropna xs = filter (\<lambda>x. x \<noteq> NaN) xs"

definition series_mean :: "fl list \<Rightarrow> fl" where
  "series_mean xs = fl_div (fl_sum xs) (Fin (real (length xs)))"

text \<open>\<^verbatim>\<open>Series.std()\<close> is the sample standard deviation (one degree of freedom
  removed), NaN for fewer than two values.\<close>

definition series_std :: "fl list \<Rightarrow> fl" where
  "series_std xs =
     (if length xs < 2 then NaN
      else fl_sqrt (fl_div
             (fl_sum (map (\<lambda>x. fl_mul (fl_sub x (series_mean xs)) (fl_sub x (series_mean xs))) xs))
             (Fin (real (length xs - 1)))))"

definition calc_sharpe_ratio :: "fl list \<Rightarrow> fl" where
  "calc_sharpe_ratio returns =
     (if fl_ne (series_std returns) (Fin 0)
      then fl_mul (fl_div (series_mean returns) (series_std returns)) (Fin (sqrt 252))
      else Fin 0)"

fun cumprod_from :: "fl \<Rightarrow> fl list \<Rightarrow> fl list" where
  "cumprod_from acc [] = []"
| "cumprod_from acc (x # xs) = fl_mul acc x # cumprod_from (fl_mul acc x) xs"

definition cumprod :: "fl list \<Rightarrow> fl list" where
  "cumprod xs = cumprod_from (Fin 1) xs"

text \<open>\<^verbatim>\<open>expanding().max()\<close> and \<^verbatim>\<open>Series.min()\<close> skip NaN entries and are NaN
  when there is nothing else. The window function reads an infinite entry as missing;
  the minimum does not.\<close>

definition inf_as_nan :: "fl \<Rightarrow> fl" where
  "inf_as_nan x = (if x = PInf \<or> x = NInf then NaN else x)"

definition nanmax :: "fl \<Rightarrow> fl \<Rightarrow> fl" where
  "nanmax a b = (if b = NaN then a else if a = NaN then b else if fl_lt a b then b else a)"

definition nanmin :: "fl \<Rightarrow> fl \<Rightarrow> fl" where
  "nanmin a b = (if b = NaN then a else if a = NaN then b else if fl_lt b a then b else a)"

fun expanding_max_from :: "fl \<Rightarrow> fl list \<Rightarrow> fl list" where
  "expanding_max_from m [] = []"
| "expanding_max_from m (x # xs) = nanmax m x # expanding_max_from (nanmax m x) xs"

definition expanding_max :: "fl list \<Rightarrow> fl list" where
  "expanding_max xs = expanding_max_from NaN (map inf_as_nan xs)"

definition series_min :: "fl list \<Rightarrow> fl" where
  "series_min xs = foldl nanmin NaN xs"

definition drawdown :: "fl list \<Rightarrow> fl list" where
  "drawdown returns =
     (let cumulative = cumprod (map (fl_add (Fin 1)) returns);
          running_max = expanding_max cumulative
      in map (\<lambda>(c, m). fl_div (fl_sub c m) m) (zip cumulative running_max))"

definition calc_max_drawdown :: "fl list \<Rightarrow> fl" where
  "calc_max_drawdown returns = fl_mul (series_min (drawdown returns)) (Fin 100)"

text \<open>The bars selected by \<^verbatim>\<open>data[data['Position'] == 1].index\<close> and its twin.\<close>

definition buy_signals :: "row list \<Rightarrow> nat list" where
  "buy_signals data = filter (\<lambda>i. is_buy (data ! i)) [0..<length data]"

definition sell_signals :: "row list \<Rightarrow> nat list" where
  "sell_signals data = filter (\<lambda>i. is_sell (data ! i)) [0..<length data]"

definition count_trades :: "row list \<Rightarrow> nat" where
  "count_trades data = length (buy_signals data)"

text \<open>The number of buy/sell pairs the win-rate loop visits, and how many of them
  closed above their entry.\<close>

definition paired_count :: "row list \<Rightarrow> nat" where
  "paired_count data = min (length (buy_signals data)) (length (sell_signals data))"

definition profitable_trades :: "row list \<Rightarrow> nat" where
  "profitable_trades data =
     length (filter (\<lambda>i. fl_gt (Close (data ! (sell_signals data ! i)))
                               (Close (data ! (buy_signals data ! i))))
                    [0..<paired_count data])"

definition calc_win_rate :: "row list \<Rightarrow> real" where
  "calc_win_rate data =
     (if count_trades data > 0
      then real (profitable_trades data) / real (count_trades data) * 100
      else 0)"

record metrics =
  total_return :: fl
  sharpe_ratio :: fl
  max_drawdown :: fl
  win_rate :: real
  trades :: nat

text \<open>
  A run is untraded when the loop never converts: the final value is then the Python
  number the capital was given as, and not a numpy float.
\<close>

definition untraded :: "row list \<Rightarrow> real \<Rightarrow> bool" where
  "untraded data initial_capital =
     list_all (\<lambda>a. a = Hold) (sim_actions (init_state initial_capital) data)"

text \<open>
  \<^verbatim>\<open>calculate_performance_metrics\<close>. On an empty frame \<^verbatim>\<open>portfolio_values[-1]\<close>
  raises \<^verbatim>\<open>IndexError\<close>. With a zero capital the division of the total return raises
  \<^verbatim>\<open>ZeroDivisionError\<close> when both operands are Python numbers, that is on an untraded
  run; on a traded run the final value is a numpy float and the division gives NaN or
  an infinity.
\<close>

definition calculate_performance_metrics :: "row list \<Rightarrow> real \<Rightarrow> error + metrics" where
  "calculate_performance_metrics data initial_capital =
     (let pvs = portfolio_values data initial_capital in
      if pvs = [] then Inl IndexError
      else if initial_capital = 0 \<and> untraded data initial_capital then Inl ZeroDivisionError
      else
        let returns = dropna (pct_change pvs) in
        Inr \<lparr>total_return =
               fl_mul (fl_div (fl_sub (last pvs) (Fin initial_capital)) (Fin initial_capital)) (Fin 100),
             sharpe_ratio = calc_sharpe_ratio returns,
             max_drawdown = calc_max_drawdown returns,
             win_rate = calc_win_rate data,
             trades = count_trades data\<rparr>)"

section \<open>The analysis run\<close>

text \<open>
  The run started by the button: an empty download is reported and nothing is computed;
  otherwise the selected strategy is applied with the parameters as given and the
  metrics are computed. An exception raised on the way is caught and reported.
\<close>

datatype strategy = MA_Crossover nat nat | RSI_Stratejisi nat real real

datatype outcome = NoData | is_Completed: Completed metrics | Failed error

fun apply_strategy :: "strategy \<Rightarrow> fl list \<Rightarrow> error + row list" where
  "apply_strategy (MA_Crossover short_ma long_ma) closes = ma_crossover_strategy closes short_ma long_ma"
| "apply_strategy (RSI_Stratejisi rsi_period oversold overbought) closes =
     Inr (rsi_strategy closes rsi_period oversold overbought)"

definition run_analysis :: "strategy \<Rightarrow> fl list \<Rightarrow> real \<Rightarrow> outcome" where
  "run_analysis strat closes initial_capital =
     (if closes = [] then NoData
      else case apply_strategy strat closes of
             Inl e \<Rightarrow> Failed e
           | Inr data \<Rightarrow>
               (case calculate_performance_metrics data initial_capital of
                  Inl e \<Rightarrow> Failed e
                | Inr m \<Rightarrow> Completed m))"

text \<open>Whether the short period of a crossover run is at most the number of bars; the
  RSI strategy has no such bound.\<close>

fun short_period_fits :: "strategy \<Rightarrow> fl list \<Rightarrow> bool" where
  "short_period_fits (MA_Crossover short_ma long_ma) closes = (short_ma \<le> length closes)"
| "short_period_fits (RSI_Stratejisi rsi_period oversold overbought) closes = True"

text \<open>The parameter ranges the specification calls valid.\<close>

fun spec_valid_params :: "strategy \<Rightarrow> bool" where
  "spec_valid_params (MA_Crossover short_ma long_ma) = (1 \<le> short_ma \<and> short_ma < long_ma)"
| "spec_valid_params (RSI_Stratejisi rsi_period oversold overbought) =
     (1 \<le> rsi_period \<and> 0 < oversold \<and> oversold < overbought \<and> overbought < 100)"

section \<open>The win rate as the specification words it\<close>



section \<open>Observing a run\<close>

text \<open>The loop variables before and after the bar at index \<open>i\<close>.\<close>

definition state_before :: "real \<Rightarrow> row list \<Rightarrow> nat \<Rightarrow> sim_state" where
  "state_before initial_capital data i =
     (init_state initial_capital # sim_states (init_state initial_capital) data) ! i"

definition state_after :: "real \<Rightarrow> row list \<Rightarrow> nat \<Rightarrow> sim_state" where
  "state_after initial_capital data i = sim_states (init_state initial_capital) data ! i"

text \<open>A frame with two buy signals in a row followed by two sell signals in a row, as
  the RSI strategy produces them when its Signal runs -1, 0, 1, 0, -1.\<close>

definition example_run :: "row list" where
  "example_run = make_rows [Fin 10, Fin 10, Fin 11, Fin 12, Fin 13] [- 1, 0, 1, 0, - 1]"

text \<open>Price series used to exercise the strategies: five bars that leave the
  crossover strategy with one closed and one open trade, a fall followed by a
  recovery, a rise that levels off, a series that never moves, and a rise followed by
  a fall.\<close>

definition open_trade_closes :: "fl list" where
  "open_trade_closes = [Fin 10, Fin 11, Fin 13, Fin 12, Fin 14]"

definition falling_closes :: "fl list" where
  "falling_closes = [Fin 10, Fin 9, Fin 8, Fin 7, Fin 6, Fin 5, Fin 6, Fin 7]"

definition rising_closes :: "fl list" where
  "rising_closes = [Fin 1, Fin 2, Fin 3, Fin 4, Fin 5, Fin 6, Fin 6, Fin 6]"

definition flat_closes :: "fl list" where
  "flat_closes = [Fin 10, Fin 10, Fin 10, Fin 10, Fin 10, Fin 10]"

definition up_down_closes :: "fl list" where
  "up_down_closes =
     [Fin 1, Fin 2, Fin 3, Fin 4, Fin 5, Fin 6, Fin 5, Fin 4, Fin 3, Fin 2, Fin 1]"

text \<open>The frame the crossover strategy with periods 1 and 2 returns on the first of
  these series.\<close>

definition open_trade_frame :: "row list" where
  "open_trade_frame =
     [\<lparr>Close = Fin 10, Signal = 0, Position = None\<rparr>,
      \<lparr>Close = Fin 11, Signal = 1, Position = Some 1\<rparr>,
      \<lparr>Close = Fin 13, Signal = 1, Position = Some 0\<rparr>,
      \<lparr>Close = Fin 12, Signal = 0, Position = Some (- 1)\<rparr>,
      \<lparr>Close = Fin 14, Signal = 1, Position = Some 1\<rparr>]"

text \<open>The bars where a Signal column moves from 0 to 1.\<close>

definition enter_moves :: "int list \<Rightarrow> nat list" where
  "enter_moves signals =
     filter (\<lambda>i. 0 < i \<and> signals ! (i - 1) = 0 \<and> signals ! i = 1) [0..<length signals]"

text \<open>Non-negative numbers, positive infinity included: what a mean of gains can be.\<close>

definition nonneg_or_inf :: "fl \<Rightarrow> bool" where
  "nonneg_or_inf x = (case x of Fin r \<Rightarrow> 0 \<le> r | PInf \<Rightarrow> True | _ \<Rightarrow> False)"

section \<open>The simulation loop, bar by bar\<close>

lemma length_sim_states: "length (sim_states s rs) = length rs"
  by (induction rs arbitrary: s) simp_all

lemma length_simulate: "length (simulate s rs) = length rs"
  by (induction rs arbitrary: s) simp_all

lemma length_sim_actions: "length (sim_actions s rs) = length rs"
  by (induction rs arbitrary: s) simp_all

lemma sim_states_nth:
  "i < length rs \<Longrightarrow> sim_states s rs ! i = sim_step ((s # sim_states s rs) ! i) (rs ! i)"
proof (induction rs arbitrary: s i)
  case Nil
  then show ?case by simp
next
  case (Cons r rs)
  show ?case
  proof (cases i)
    case 0
    then show ?thesis by simp
  next
    case (Suc j)
    with Cons.prems have "j < length rs" by simp
    from Cons.IH [OF this, of "sim_step s r"] Suc show ?thesis by simp
  qed
qed

lemma simulate_nth:
  "i < length rs \<Longrightarrow> simulate s rs ! i = bar_value (sim_states s rs ! i) (rs ! i)"
proof (induction rs arbitrary: s i)
  case Nil
  then show ?case by simp
next
  case (Cons r rs)
  then show ?case by (cases i) simp_all
qed

lemma sim_actions_nth:
  "i < length rs \<Longrightarrow> sim_actions s rs ! i = sim_action ((s # sim_states s rs) ! i) (rs ! i)"
proof (induction rs arbitrary: s i)
  case Nil
  then show ?case by simp
next
  case (Cons r rs)
  then show ?case by (cases i) simp_all
qed

lemma sim_step_position:
  "position s = 0 \<or> position s = 1 \<Longrightarrow> position (sim_step s r) = 0 \<or> position (sim_step s r) = 1"
  by (auto simp: sim_step_def)

lemma sim_states_position:
  "position s = 0 \<or> position s = 1 \<Longrightarrow>
   list_all (\<lambda>t. position t = 0 \<or> position t = 1) (sim_states s rs)"
proof (induction rs arbitrary: s)
  case Nil
  then show ?case by simp
next
  case (Cons r rs)
  from sim_step_position [OF Cons.prems] have "position (sim_step s r) = 0 \<or> position (sim_step s r) = 1" .
  with Cons.IH [of "sim_step s r"] show ?case by simp
qed

lemma state_before_position:
  "i \<le> length data \<Longrightarrow> position (state_before cap data i) = 0 \<or> position (state_before cap data i) = 1"
proof -
  assume i: "i \<le> length data"
  have "list_all (\<lambda>t. position t = 0 \<or> position t = 1)
          (init_state cap # sim_states (init_state cap) data)"
    using sim_states_position [of "init_state cap" data] by (simp add: init_state_def)
  moreover have "i < length (init_state cap # sim_states (init_state cap) data)"
    using i by (simp add: length_sim_states)
  ultimately show ?thesis
    unfolding state_before_def list_all_length by blast
qed

lemma sim_step_position_action:
  "position (sim_step s r) = (case sim_action s r of Enter \<Rightarrow> 1 | Exit \<Rightarrow> 0 | Hold \<Rightarrow> position s)"
  by (simp add: sim_step_def sim_action_def)

lemma sim_actions_alternating:
  "position s = 0 \<or> position s = 1 \<Longrightarrow> alternating (position s) (sim_actions s rs)"
proof (induction rs arbitrary: s)
  case Nil
  then show ?case by simp
next
  case (Cons r rs)
  have next_ok: "position (sim_step s r) = 0 \<or> position (sim_step s r) = 1"
    using sim_step_position [OF Cons.prems] .
  note ih = Cons.IH [OF next_ok]
  show ?case
  proof (cases "sim_action s r")
    case Enter
    then have "position s = 0" by (auto simp: sim_action_def split: if_splits)
    with Enter ih show ?thesis by (simp add: sim_step_position_action)
  next
    case Exit
    then have "position s = 1" by (auto simp: sim_action_def split: if_splits)
    with Exit ih show ?thesis by (simp add: sim_step_position_action)
  next
    case Hold
    with ih show ?thesis by (simp add: sim_step_position_action)
  qed
qed

text \<open>
  Claim C10. Throughout the simulation the position variable is 0 or 1 and entries and
  exits strictly alternate: a buy-signal bar converts cash to shares only when the
  position is 0, a sell-signal bar converts shares to cash only when the position is 1,
  and a buy signal while long or a sell signal while flat (like a bar with no signal)
  leaves cash, shares and position as they are.
\<close>

theorem simulator_position_alternation:
  assumes "i < length data"
  shows "(position (state_before cap data i) = 0 \<or> position (state_before cap data i) = 1)
       \<and> (position (state_after cap data i) = 0 \<or> position (state_after cap data i) = 1)
       \<and> alternating 0 (sim_actions (init_state cap) data)
       \<and> (is_buy (data ! i) \<and> position (state_before cap data i) = 0 \<longrightarrow>
            state_after cap data i =
              (state_before cap data i)
                \<lparr>shares := fl_div (portfolio_value (state_before cap data i)) (Close (data ! i)),
                 position := 1\<rparr>)
       \<and> (is_sell (data ! i) \<and> position (state_before cap data i) = 1 \<longrightarrow>
            state_after cap data i =
              (state_before cap data i)
                \<lparr>portfolio_value := fl_mul (shares (state_before cap data i)) (Close (data ! i)),
                 shares := Fin 0, position := 0\<rparr>)
       \<and> (is_buy (data ! i) \<and> position (state_before cap data i) = 1 \<longrightarrow>
            state_after cap data i = state_before cap data i)
       \<and> (is_sell (data ! i) \<and> position (state_before cap data i) = 0 \<longrightarrow>
            state_after cap data i = state_before cap data i)
       \<and> (\<not> is_buy (data ! i) \<and> \<not> is_sell (data ! i) \<longrightarrow>
            state_after cap data i = state_before cap data i)"
proof -
  let ?s = "state_before cap data i"
  have step: "state_after cap data i = sim_step ?s (data ! i)"
    unfolding state_after_def state_before_def using assms by (rule sim_states_nth)
  have before: "position ?s = 0 \<or> position ?s = 1"
    using assms by (simp add: state_before_position)
  have after: "position (state_after cap data i) = 0 \<or> position (state_after cap data i) = 1"
    unfolding step using before by (rule sim_step_position)
  have alt: "alternating 0 (sim_actions (init_state cap) data)"
    using sim_actions_alternating [of "init_state cap" data] by (simp add: init_state_def)
  have excl: "\<not> (is_buy (data ! i) \<and> is_sell (data ! i))"
    by (simp add: is_buy_def is_sell_def)
  from before after alt excl show ?thesis
    unfolding step by (auto simp: sim_step_def)
qed

theorem simulator_position_alternation_witness:
  "1 < length example_run \<and> is_buy (example_run ! 1)
     \<and> position (state_before 100000 example_run 1) = 0
     \<and> state_after 100000 example_run 1
         = \<lparr>portfolio_value = Fin 100000, shares = Fin 10000, position = 1\<rparr>
   \<and> 2 < length example_run \<and> is_buy (example_run ! 2)
     \<and> position (state_before 100000 example_run 2) = 1
     \<and> state_after 100000 example_run 2 = state_before 100000 example_run 2
   \<and> 3 < length example_run \<and> is_sell (example_run ! 3)
     \<and> position (state_before 100000 example_run 3) = 1
     \<and> state_after 100000 example_run 3
         = \<lparr>portfolio_value = Fin 120000, shares = Fin 0, position = 0\<rparr>
   \<and> 4 < length example_run \<and> is_sell (example_run ! 4)
     \<and> position (state_before 100000 example_run 4) = 0
     \<and> state_after 100000 example_run 4 = state_before 100000 example_run 4
   \<and> alternating 0 (sim_actions (init_state 100000) example_run)"
proof -
  have 1: "1 < length example_run" "is_buy (example_run ! 1)"
      "position (state_before 100000 example_run 1) = 0"
      "state_before 100000 example_run 1
         = \<lparr>portfolio_value = Fin 100000, shares = Fin 0, position = 0\<rparr>"
      "Close (example_run ! 1) = Fin 10"
    by code_simp+
  have 2: "2 < length example_run" "is_buy (example_run ! 2)"
      "position (state_before 100000 example_run 2) = 1"
    by code_simp+
  have 3: "3 < length example_run" "is_sell (example_run ! 3)"
      "position (state_before 100000 example_run 3) = 1"
      "state_before 100000 example_run 3
         = \<lparr>portfolio_value = Fin 100000, shares = Fin 10000, position = 1\<rparr>"
      "Close (example_run ! 3) = Fin 12"
    by code_simp+
  have 4: "4 < length example_run" "is_sell (example_run ! 4)"
      "position (state_before 100000 example_run 4) = 0"
    by code_simp+
  show ?thesis
    using simulator_position_alternation [OF 1(1), of 100000]
      simulator_position_alternation [OF 2(1), of 100000]
      simulator_position_alternation [OF 3(1), of 100000]
      simulator_position_alternation [OF 4(1), of 100000]
      1 2 3 4
    by simp
qed

text \<open>
  Claim C1. The simulator appends exactly one value per bar. On a bar the loop leaves
  flat (position 0) the value is the cash balance, so it is the same on two
  consecutive flat bars; on a bar the loop leaves long (position 1) it is the shares
  held times that bar's close. No other position occurs.
\<close>

theorem equity_point_per_bar:
  "length (portfolio_values data cap) = length data
   \<and> (\<forall>i < length data.
        (position (state_after cap data i) = 0 \<longrightarrow>
           portfolio_values data cap ! i = portfolio_value (state_after cap data i))
      \<and> (position (state_after cap data i) = 1 \<longrightarrow>
           portfolio_values data cap ! i
             = fl_mul (shares (state_after cap data i)) (Close (data ! i)))
      \<and> (position (state_after cap data i) = 0 \<or> position (state_after cap data i) = 1))
   \<and> (\<forall>i. Suc i < length data
          \<and> position (state_after cap data i) = 0
          \<and> position (state_after cap data (Suc i)) = 0 \<longrightarrow>
        portfolio_values data cap ! Suc i = portfolio_values data cap ! i)"
proof (intro conjI allI impI)
  show "length (portfolio_values data cap) = length data"
    by (simp add: portfolio_values_def length_simulate)
next
  fix i assume "i < length data"
  then show "portfolio_values data cap ! i = portfolio_value (state_after cap data i)"
    if "position (state_after cap data i) = 0"
    using that by (simp add: portfolio_values_def state_after_def simulate_nth bar_value_def)
next
  fix i assume "i < length data"
  then show "portfolio_values data cap ! i = fl_mul (shares (state_after cap data i)) (Close (data ! i))"
    if "position (state_after cap data i) = 1"
    using that by (simp add: portfolio_values_def state_after_def simulate_nth bar_value_def)
next
  fix i assume i: "i < length data"
  have "state_after cap data i = sim_step (state_before cap data i) (data ! i)"
    unfolding state_after_def state_before_def using i by (rule sim_states_nth)
  moreover have "position (state_before cap data i) = 0 \<or> position (state_before cap data i) = 1"
    using i by (simp add: state_before_position)
  ultimately show "position (state_after cap data i) = 0 \<or> position (state_after cap data i) = 1"
    by (simp add: sim_step_position)
next
  fix i
  assume a: "Suc i < length data \<and> position (state_after cap data i) = 0
          \<and> position (state_after cap data (Suc i)) = 0"
  then have i: "i < length data" and si: "Suc i < length data" by simp_all
  have before: "state_before cap data (Suc i) = state_after cap data i"
    by (simp add: state_before_def state_after_def)
  have step: "state_after cap data (Suc i) = sim_step (state_after cap data i) (data ! Suc i)"
    unfolding before [symmetric] unfolding state_after_def state_before_def
    using si by (rule sim_states_nth)
  have same: "state_after cap data (Suc i) = state_after cap data i"
    using a unfolding step by (auto simp: sim_step_def split: if_splits)
  have "portfolio_values data cap ! Suc i = portfolio_value (state_after cap data (Suc i))"
    using a si by (simp add: portfolio_values_def state_after_def simulate_nth bar_value_def)
  moreover have "portfolio_values data cap ! i = portfolio_value (state_after cap data i)"
    using a i by (simp add: portfolio_values_def state_after_def simulate_nth bar_value_def)
  ultimately show "portfolio_values data cap ! Suc i = portfolio_values data cap ! i"
    by (simp add: same)
qed

theorem equity_point_per_bar_witness:
  "length (portfolio_values example_run 100000) = length example_run
   \<and> 0 < length example_run \<and> position (state_after 100000 example_run 0) = 0
     \<and> portfolio_values example_run 100000 ! 0 = Fin 100000
   \<and> 2 < length example_run \<and> position (state_after 100000 example_run 2) = 1
     \<and> portfolio_values example_run 100000 ! 2 = Fin 110000
   \<and> Suc 3 < length example_run \<and> position (state_after 100000 example_run 3) = 0
     \<and> position (state_after 100000 example_run (Suc 3)) = 0
     \<and> portfolio_values example_run 100000 ! Suc 3 = portfolio_values example_run 100000 ! 3"
proof -
  note t = equity_point_per_bar [of example_run 100000]
  have 0: "0 < length example_run" "position (state_after 100000 example_run 0) = 0"
      "portfolio_value (state_after 100000 example_run 0) = Fin 100000"
    by code_simp+
  have 2: "2 < length example_run" "position (state_after 100000 example_run 2) = 1"
      "shares (state_after 100000 example_run 2) = Fin 10000" "Close (example_run ! 2) = Fin 11"
    by code_simp+
  have 3: "Suc 3 < length example_run" "position (state_after 100000 example_run 3) = 0"
      "position (state_after 100000 example_run (Suc 3)) = 0"
    by code_simp+
  from t have len: "length (portfolio_values example_run 100000) = length example_run"
    by (rule conjunct1)
  from t [THEN conjunct2, THEN conjunct1, THEN spec, of 0] 0
  have v0: "portfolio_values example_run 100000 ! 0 = Fin 100000" by simp
  from t [THEN conjunct2, THEN conjunct1, THEN spec, of 2] 2
  have v2: "portfolio_values example_run 100000 ! 2 = Fin 110000" by simp
  from t [THEN conjunct2, THEN conjunct2, THEN spec, of 3] 3
  have v3: "portfolio_values example_run 100000 ! Suc 3 = portfolio_values example_run 100000 ! 3"
    by simp
  from len 0 2 3 v0 v2 v3 show ?thesis by simp
qed

section \<open>The metrics record\<close>

lemma metrics_fields:
  assumes "calculate_performance_metrics data cap = Inr m"
  shows "trades m = count_trades data" and "win_rate m = calc_win_rate data"
    and "sharpe_ratio m = calc_sharpe_ratio (dropna (pct_change (portfolio_values data cap)))"
    and "max_drawdown m = calc_max_drawdown (dropna (pct_change (portfolio_values data cap)))"
    and "data \<noteq> []"
  using assms
  by (auto simp: calculate_performance_metrics_def Let_def portfolio_values_def split: if_splits)

lemma metrics_exist:
  "data \<noteq> [] \<Longrightarrow> cap \<noteq> 0 \<Longrightarrow> \<exists>m. calculate_performance_metrics data cap = Inr m"
  by (cases data) (simp_all add: calculate_performance_metrics_def Let_def portfolio_values_def)

lemma metrics_projr:
  "data \<noteq> [] \<Longrightarrow> cap \<noteq> 0 \<Longrightarrow>
   calculate_performance_metrics data cap = Inr (projr (calculate_performance_metrics data cap))"
  using metrics_exist [of data cap] by auto

lemma length_filter_upt_nth:
  "length (filter (\<lambda>i. P (xs ! i)) [0..<length xs]) = length (filter P xs)"
proof (induction xs rule: rev_induct)
  case Nil
  then show ?case by simp
next
  case (snoc x xs)
  have "filter (\<lambda>i. P ((xs @ [x]) ! i)) [0..<length xs] = filter (\<lambda>i. P (xs ! i)) [0..<length xs]"
    by (rule filter_cong) (simp_all add: nth_append)
  with snoc show ?case by simp
qed

lemma count_trades_filter: "count_trades data = length (filter is_buy data)"
  by (simp add: count_trades_def buy_signals_def length_filter_upt_nth)

lemma length_make_rows:
  "length signals = length closes \<Longrightarrow> length (make_rows closes signals) = length closes"
  by (simp add: make_rows_def diff_int_def)

lemma make_rows_nth:
  assumes "length signals = length closes" and "i < length closes"
  shows "make_rows closes signals ! i =
          \<lparr>Close = closes ! i, Signal = signals ! i,
           Position = (if i = 0 then None else Some (signals ! i - signals ! (i - 1)))\<rparr>"
  using assms by (simp add: make_rows_def diff_int_def)

lemma buy_signals_enter_moves:
  assumes len: "length signals = length closes"
    and bin: "list_all (\<lambda>s. s = 0 \<or> s = 1) signals"
  shows "buy_signals (make_rows closes signals) = enter_moves signals"
proof -
  have "is_buy (make_rows closes signals ! i)
         \<longleftrightarrow> 0 < i \<and> signals ! (i - 1) = 0 \<and> signals ! i = 1"
    if i: "i < length signals" for i
  proof -
    from bin i have a: "signals ! i = 0 \<or> signals ! i = 1"
      by (simp add: list_all_length)
    from bin i have b: "signals ! (i - 1) = 0 \<or> signals ! (i - 1) = 1"
      by (simp add: list_all_length)
    from a b i len show ?thesis
      by (auto simp: make_rows_nth is_buy_def)
  qed
  then have "filter (\<lambda>i. is_buy (make_rows closes signals ! i)) [0..<length signals]
           = filter (\<lambda>i. 0 < i \<and> signals ! (i - 1) = 0 \<and> signals ! i = 1) [0..<length signals]"
    by (intro filter_cong refl) simp
  then show ?thesis
    unfolding buy_signals_def enter_moves_def by (simp add: length_make_rows len)
qed

lemma sell_count_filter: "length (sell_signals data) = length (filter is_sell data)"
  by (simp add: sell_signals_def length_filter_upt_nth)

lemma map_Position_make_rows:
  assumes "length signals = length closes"
  shows "map Position (make_rows closes signals) = diff_int signals"
proof (rule nth_equalityI)
  show "length (map Position (make_rows closes signals)) = length (diff_int signals)"
    using assms by (simp add: length_make_rows diff_int_def)
next
  fix i assume "i < length (map Position (make_rows closes signals))"
  with assms have i: "i < length closes" by (simp add: length_make_rows)
  with assms have "Position (make_rows closes signals ! i)
      = (if i = 0 then None else Some (signals ! i - signals ! (i - 1)))"
    by (simp add: make_rows_nth)
  moreover from i assms have "diff_int signals ! i
      = (if i = 0 then None else Some (signals ! i - signals ! (i - 1)))"
    by (simp add: diff_int_def)
  ultimately show "map Position (make_rows closes signals) ! i = diff_int signals ! i"
    using i assms by (simp add: length_make_rows)
qed

lemma diff_int_snoc:
  "diff_int (xs @ [x]) = diff_int xs @ [if xs = [] then None else Some (x - last xs)]"
proof (rule nth_equalityI)
  show "length (diff_int (xs @ [x]))
      = length (diff_int xs @ [if xs = [] then None else Some (x - last xs)])"
    by (simp add: diff_int_def)
next
  fix i assume "i < length (diff_int (xs @ [x]))"
  then have i: "i < Suc (length xs)" by (simp add: diff_int_def)
  show "diff_int (xs @ [x]) ! i
      = (diff_int xs @ [if xs = [] then None else Some (x - last xs)]) ! i"
  proof (cases "i < length xs")
    case True
    then have "i - 1 < length xs" by simp
    with True have l: "diff_int (xs @ [x]) ! i = (if i = 0 then None else Some (xs ! i - xs ! (i - 1)))"
      unfolding diff_int_def using i by (simp add: nth_append del: upt_Suc)
    from True have r: "(diff_int xs @ [if xs = [] then None else Some (x - last xs)]) ! i
         = (if i = 0 then None else Some (xs ! i - xs ! (i - 1)))"
      by (simp add: nth_append diff_int_def)
    from l r show ?thesis by simp
  next
    case False
    with i have e: "i = length xs" by simp
    have l: "diff_int (xs @ [x]) ! length xs
           = (if xs = [] then None else Some (x - xs ! (length xs - 1)))"
      unfolding diff_int_def by (simp add: nth_append del: upt_Suc)
    have r: "(diff_int xs @ [if xs = [] then None else Some (x - last xs)]) ! length xs
           = (if xs = [] then None else Some (x - last xs))"
      by (simp add: nth_append diff_int_def)
    from l r show ?thesis unfolding e by (simp add: last_conv_nth)
  qed
qed

text \<open>The moves up by one outnumber the moves down by one by the rise of the column
  from its first to its last entry.\<close>

lemma diff_int_telescope:
  "xs \<noteq> [] \<Longrightarrow> list_all (\<lambda>s. s = 0 \<or> s = 1) xs \<Longrightarrow>
   int (length (filter (\<lambda>p. p = Some 1) (diff_int xs)))
     - int (length (filter (\<lambda>p. p = Some (- 1)) (diff_int xs)))
   = last xs - hd xs"
proof (induction xs rule: rev_induct)
  case Nil
  then show ?case by simp
next
  case (snoc x xs)
  show ?case
  proof (cases "xs = []")
    case True
    then show ?thesis by (simp add: diff_int_def)
  next
    case False
    from snoc.prems have bin: "list_all (\<lambda>s. s = 0 \<or> s = 1) xs" and x: "x = 0 \<or> x = 1"
      by simp_all
    from bin False have l: "last xs = 0 \<or> last xs = 1"
      by (simp add: list_all_iff)
    from snoc.IH [OF False bin] False x l show ?thesis
      by (auto simp: diff_int_snoc)
  qed
qed

lemma buys_minus_sells:
  assumes len: "length signals = length closes"
    and bin: "list_all (\<lambda>s. s = 0 \<or> s = 1) signals"
    and ne: "signals \<noteq> []"
  shows "int (length (buy_signals (make_rows closes signals)))
           - int (length (sell_signals (make_rows closes signals)))
         = last signals - signals ! 0"
proof -
  let ?rows = "make_rows closes signals"
  have b: "length (buy_signals ?rows) = length (filter (\<lambda>p. p = Some 1) (map Position ?rows))"
    using count_trades_filter [of ?rows]
    by (simp add: count_trades_def filter_map comp_def is_buy_def [abs_def])
  have s: "length (sell_signals ?rows) = length (filter (\<lambda>p. p = Some (- 1)) (map Position ?rows))"
    by (simp add: sell_count_filter filter_map comp_def is_sell_def [abs_def])
  from ne have "hd signals = signals ! 0" by (simp add: hd_conv_nth)
  with diff_int_telescope [OF ne bin] show ?thesis
    by (simp add: b s map_Position_make_rows [OF len])
qed

lemma ma_signal_column:
  assumes "ma_signal closes short_period long_period = Inr signals"
  shows "length signals = length closes" and "list_all (\<lambda>s. s = 0 \<or> s = 1) signals"
    and "0 < short_period \<Longrightarrow> signals ! 0 = 0"
proof -
  from assms have fits: "short_period \<le> length closes"
    and sig: "signals = map (\<lambda>i. if i < short_period then 0
                         else if fl_gt (calculate_ma closes short_period ! i)
                                       (calculate_ma closes long_period ! i) then 1 else 0)
                    [0..<length closes]"
    by (auto simp: ma_signal_def split: if_splits)
  show "length signals = length closes" by (simp add: sig)
  show "list_all (\<lambda>s. s = 0 \<or> s = 1) signals" by (simp add: sig list_all_length)
  show "signals ! 0 = 0" if "0 < short_period"
  proof -
    from that fits have "0 < length closes" by auto
    with that show ?thesis by (simp add: sig)
  qed
qed

lemma binary_column_pairs:
  assumes len: "length signals = length closes"
    and bin: "list_all (\<lambda>s. s = 0 \<or> s = 1) signals"
    and ne: "signals \<noteq> []"
    and first: "signals ! 0 = 0"
  shows "length (buy_signals (make_rows closes signals))
           = paired_count (make_rows closes signals) + (if last signals = 1 then 1 else 0)"
proof -
  let ?rows = "make_rows closes signals"
  from bin ne have l: "last signals = 0 \<or> last signals = 1"
    by (simp add: list_all_iff)
  from buys_minus_sells [OF len bin ne] first
  have "int (length (buy_signals ?rows)) - int (length (sell_signals ?rows)) = last signals"
    by simp
  with l show ?thesis
    by (auto simp: paired_count_def)
qed

text \<open>
  Claim C5, as stated, fails on a run of the RSI strategy: the trade count is the number
  of bars whose Position is 1, and on a Signal column with the value -1 such a bar need
  not be a move from 0 to 1. On a rise followed by a fall the Signal moves from -1 to 0
  at bar 7 and from 0 to 1 at bar 9: one Enter, trade count 2.
\<close>

theorem trade_count_enter_signals_counterexample:
  "rsi_signal up_down_closes 5 30 70 = [0, 0, 0, 0, - 1, - 1, - 1, 0, 0, 1, 1]
   \<and> enter_moves (rsi_signal up_down_closes 5 30 70) = [9]
   \<and> run_analysis (RSI_Stratejisi 5 30 70) up_down_closes 100000
       = Completed (projr (calculate_performance_metrics (rsi_strategy up_down_closes 5 30 70) 100000))
   \<and> trades (projr (calculate_performance_metrics (rsi_strategy up_down_closes 5 30 70) 100000)) = 2"
proof -
  let ?d = "rsi_strategy up_down_closes 5 30 70"
  have ne: "?d \<noteq> []" "up_down_closes \<noteq> []" by code_simp+
  have run: "calculate_performance_metrics ?d 100000
           = Inr (projr (calculate_performance_metrics ?d 100000))"
    using ne(1) by (intro metrics_projr) simp_all
  then obtain m where m: "calculate_performance_metrics ?d 100000 = Inr m" ..
  have ev: "rsi_signal up_down_closes 5 30 70 = [0, 0, 0, 0, - 1, - 1, - 1, 0, 0, 1, 1]"
      "enter_moves (rsi_signal up_down_closes 5 30 70) = [9]"
      "count_trades ?d = 2"
    by code_simp+
  from m ne(2) have "run_analysis (RSI_Stratejisi 5 30 70) up_down_closes 100000 = Completed m"
    by (simp add: run_analysis_def)
  with m metrics_fields(1) [OF m] ev show ?thesis by simp
qed

text \<open>
  Claim C5, amended. On a frame whose Signal column holds only zeros and ones, as every
  frame of the crossover strategy does, the trade count is the number of Enter signals,
  the bars where Signal moves from 0 to 1. An Enter with no later Exit is counted: when
  the column starts at 0, the trade count is the number of buy/sell pairs the win rate
  looks at, plus one when the column ends at 1.
\<close>

theorem trade_count_counts_enter_moves:
  assumes "calculate_performance_metrics (make_rows closes signals) cap = Inr m"
    and "length signals = length closes"
    and "list_all (\<lambda>s. s = 0 \<or> s = 1) signals"
  shows "trades m = length (enter_moves signals)
       \<and> (signals ! 0 = 0 \<longrightarrow>
            trades m = paired_count (make_rows closes signals) + (if last signals = 1 then 1 else 0))"
proof -
  let ?rows = "make_rows closes signals"
  from assms(1) have t: "trades m = length (buy_signals ?rows)"
    by (simp add: metrics_fields(1) count_trades_def)
  from assms(1) have "?rows \<noteq> []" by (rule metrics_fields(5))
  with assms(2) have ne: "signals \<noteq> []" by (auto simp: make_rows_def)
  have "trades m = length (enter_moves signals)"
    by (simp add: t buy_signals_enter_moves [OF assms(2,3)])
  moreover have "trades m = paired_count ?rows + (if last signals = 1 then 1 else 0)"
    if "signals ! 0 = 0"
    unfolding t using assms(2,3) ne that by (rule binary_column_pairs)
  ultimately show ?thesis by simp
qed

theorem trade_count_counts_enter_moves_witness:
  "ma_signal open_trade_closes 1 2 = Inr [0, 1, 1, 0, 1]
   \<and> calculate_performance_metrics (make_rows open_trade_closes [0, 1, 1, 0, 1]) 100000
       = Inr (projr (calculate_performance_metrics (make_rows open_trade_closes [0, 1, 1, 0, 1]) 100000))
   \<and> length [0, 1, 1, 0, 1 :: int] = length open_trade_closes
   \<and> list_all (\<lambda>s. s = 0 \<or> s = 1) [0, 1, 1, 0, 1 :: int]
   \<and> [0, 1, 1, 0, 1 :: int] ! 0 = 0
   \<and> last [0, 1, 1, 0, 1 :: int] = 1
   \<and> enter_moves [0, 1, 1, 0, 1] = [1, 4]
   \<and> paired_count (make_rows open_trade_closes [0, 1, 1, 0, 1]) = 1
   \<and> trades (projr (calculate_performance_metrics (make_rows open_trade_closes [0, 1, 1, 0, 1]) 100000)) = 2"
proof -
  let ?sig = "[0, 1, 1, 0, 1 :: int]"
  let ?d = "make_rows open_trade_closes ?sig"
  have ne: "?d \<noteq> []" by code_simp
  have run: "calculate_performance_metrics ?d 100000
           = Inr (projr (calculate_performance_metrics ?d 100000))"
    using ne by (intro metrics_projr) simp_all
  then obtain m where m: "calculate_performance_metrics ?d 100000 = Inr m" ..
  have len: "length ?sig = length open_trade_closes" by code_simp
  have bin: "list_all (\<lambda>s. s = 0 \<or> s = 1) ?sig" by simp
  have ev: "ma_signal open_trade_closes 1 2 = Inr ?sig" "enter_moves ?sig = [1, 4]"
      "paired_count ?d = 1"
    by code_simp+
  from trade_count_counts_enter_moves [OF m len bin] m len ev show ?thesis by simp
qed

section \<open>Win rate\<close>









section \<open>Frames of the strategies and the outcome of a run\<close>

lemma length_rolling_mean: "length (rolling_mean p xs) = length xs"
  by (simp add: rolling_mean_def)

lemma length_diff: "length (diff xs) = length xs"
  by (simp add: diff_def)

lemma length_calculate_rsi: "length (calculate_rsi closes p) = length closes"
  by (simp add: calculate_rsi_def rsi_gain_def rsi_loss_def length_rolling_mean length_diff)

lemma length_rsi_signal: "length (rsi_signal closes p os ob) = length closes"
  by (simp add: rsi_signal_def length_calculate_rsi)

lemma apply_strategy_frame:
  assumes "apply_strategy strat closes = Inr data"
  shows "\<exists>signals. data = make_rows closes signals \<and> length signals = length closes"
proof (cases strat)
  case (MA_Crossover short_ma long_ma)
  with assms obtain signals where s: "ma_signal closes short_ma long_ma = Inr signals"
    and d: "data = make_rows closes signals"
    by (auto simp: ma_crossover_strategy_def split: sum.splits)
  from ma_signal_column(1) [OF s] d show ?thesis by blast
next
  case (RSI_Stratejisi rsi_period oversold overbought)
  with assms have "data = make_rows closes (rsi_signal closes rsi_period oversold overbought)"
    by (simp add: rsi_strategy_def)
  then show ?thesis using length_rsi_signal by blast
qed

lemma apply_strategy_first_bar:
  assumes "apply_strategy strat closes = Inr data" and "closes \<noteq> []"
  shows "length data = length closes" and "Position (data ! 0) = None"
proof -
  from apply_strategy_frame [OF assms(1)] obtain signals
    where d: "data = make_rows closes signals" and len: "length signals = length closes"
    by blast
  show "length data = length closes" by (simp add: d length_make_rows len)
  from assms(2) have "0 < length closes" by simp
  with len show "Position (data ! 0) = None" by (simp add: d make_rows_nth)
qed

lemma run_analysis_Completed:
  "run_analysis strat closes cap = Completed m \<longleftrightarrow>
     closes \<noteq> [] \<and> (\<exists>data. apply_strategy strat closes = Inr data
                          \<and> calculate_performance_metrics data cap = Inr m)"
  by (auto simp: run_analysis_def split: sum.splits)

lemma run_analysis_Failed:
  "run_analysis strat closes cap = Failed e \<longleftrightarrow>
     closes \<noteq> [] \<and> (apply_strategy strat closes = Inl e
        \<or> (\<exists>data. apply_strategy strat closes = Inr data
                  \<and> calculate_performance_metrics data cap = Inl e))"
  by (auto simp: run_analysis_def split: sum.splits)

text \<open>A completed run of the crossover strategy with a short period of at least one
  bar: its trade count is the number of Enter signals of its Signal column, and one
  more than the number of buy/sell pairs when the series ends long.\<close>

lemma ma_run_trade_count:
  assumes "run_analysis (MA_Crossover short_ma long_ma) closes cap = Completed m"
    and "0 < short_ma"
  shows "\<exists>signals. ma_signal closes short_ma long_ma = Inr signals
           \<and> trades m = length (enter_moves signals)
           \<and> trades m = paired_count (make_rows closes signals)
                           + (if last signals = 1 then 1 else 0)"
proof -
  from assms(1) obtain data where ne: "closes \<noteq> []"
      and a: "ma_crossover_strategy closes short_ma long_ma = Inr data"
      and m: "calculate_performance_metrics data cap = Inr m"
    by (auto simp: run_analysis_Completed)
  from a obtain signals where s: "ma_signal closes short_ma long_ma = Inr signals"
    and d: "data = make_rows closes signals"
    by (auto simp: ma_crossover_strategy_def split: sum.splits)
  note col = ma_signal_column [OF s]
  from col(1) ne have sne: "signals \<noteq> []" by auto
  from m have t: "trades m = length (buy_signals (make_rows closes signals))"
    by (simp add: metrics_fields(1) count_trades_def d)
  have 1: "trades m = length (enter_moves signals)"
    by (simp add: t buy_signals_enter_moves [OF col(1,2)])
  have 2: "trades m = paired_count (make_rows closes signals) + (if last signals = 1 then 1 else 0)"
    unfolding t using col(1,2) sne col(3) [OF assms(2)] by (rule binary_column_pairs)
  from s 1 2 show ?thesis by blast
qed

text \<open>With a capital of zero a run that never trades fails on the division of the
  total return.\<close>

lemma zero_capital_untraded_raises:
  "data \<noteq> [] \<Longrightarrow> untraded data 0 \<Longrightarrow>
   calculate_performance_metrics data 0 = Inl ZeroDivisionError"
  by (cases data) (simp_all add: calculate_performance_metrics_def Let_def portfolio_values_def)

lemma zero_capital_run_fails:
  "run_analysis (RSI_Stratejisi 14 30 70) [Fin 10, Fin 11] 0 = Failed ZeroDivisionError"
proof -
  have "rsi_strategy [Fin 10, Fin 11] 14 30 70 \<noteq> []"
    "untraded (rsi_strategy [Fin 10, Fin 11] 14 30 70) 0"
    by code_simp+
  then have "calculate_performance_metrics (rsi_strategy [Fin 10, Fin 11] 14 30 70) 0
               = Inl ZeroDivisionError"
    by (rule zero_capital_untraded_raises)
  then show ?thesis by (simp add: run_analysis_def)
qed

section \<open>Sharpe ratio and drawdown\<close>

lemma calc_sharpe_ratio_zero_std: "series_std returns = Fin 0 \<Longrightarrow> calc_sharpe_ratio returns = Fin 0"
  by (simp add: calc_sharpe_ratio_def fl_ne_def)

lemma calc_sharpe_ratio_nan_std: "series_std returns = NaN \<Longrightarrow> calc_sharpe_ratio returns = NaN"
  by (cases "series_mean returns") (simp_all add: calc_sharpe_ratio_def fl_ne_def)

lemma metrics_projr_traded:
  "data \<noteq> [] \<Longrightarrow> \<not> untraded data cap \<Longrightarrow>
   calculate_performance_metrics data cap = Inr (projr (calculate_performance_metrics data cap))"
  by (cases data) (simp_all add: calculate_performance_metrics_def Let_def portfolio_values_def)

text \<open>
  Claim C7 on a series of two bars, with the RSI strategy at its default parameters.
  No RSI is defined, no signal is given, the equity curve is flat and has one return.
  The standard deviation of one value is NaN, the guard \<^verbatim>\<open>returns.std() != 0\<close> lets
  NaN through, and the Sharpe ratio of the metrics record is NaN.
\<close>

theorem sharpe_ratio_nan_two_bars:
  "run_analysis (RSI_Stratejisi 14 30 70) [Fin 10, Fin 11] 100000
      = Completed (projr (calculate_performance_metrics (rsi_strategy [Fin 10, Fin 11] 14 30 70) 100000))
   \<and> portfolio_values (rsi_strategy [Fin 10, Fin 11] 14 30 70) 100000 = [Fin 100000, Fin 100000]
   \<and> dropna (pct_change (portfolio_values (rsi_strategy [Fin 10, Fin 11] 14 30 70) 100000)) = [Fin 0]
   \<and> series_std [Fin 0] = NaN
   \<and> sharpe_ratio (projr (calculate_performance_metrics (rsi_strategy [Fin 10, Fin 11] 14 30 70) 100000)) = NaN"
proof -
  let ?d = "rsi_strategy [Fin 10, Fin 11] 14 30 70"
  have ne: "?d \<noteq> []" by code_simp
  have "calculate_performance_metrics ?d 100000
           = Inr (projr (calculate_performance_metrics ?d 100000))"
    using ne by (intro metrics_projr) simp_all
  then obtain m where m: "calculate_performance_metrics ?d 100000 = Inr m" ..
  have pv: "portfolio_values ?d 100000 = [Fin 100000, Fin 100000]" by code_simp
  have r: "dropna (pct_change (portfolio_values ?d 100000)) = [Fin 0]" by code_simp
  have sd: "series_std [Fin 0] = NaN" by (simp add: series_std_def)
  have sh: "calc_sharpe_ratio [Fin 0] = NaN"
    using sd by (rule calc_sharpe_ratio_nan_std)
  have "run_analysis (RSI_Stratejisi 14 30 70) [Fin 10, Fin 11] 100000 = Completed m"
    by (simp add: run_analysis_Completed m)
  with metrics_fields(3) [OF m] m pv r sd sh show ?thesis by simp
qed

text \<open>
  Claim C8, as stated, fails on a series of one bar: there is no return, the drawdown
  series is empty, and the maximum drawdown is NaN, which is not at most 0. With a
  capital of zero a traded run has an equity curve of zeros, every return is 0/0, and
  the maximum drawdown is NaN again.
\<close>

theorem max_drawdown_one_bar_counterexample:
  "run_analysis (RSI_Stratejisi 14 30 70) [Fin 10] 100000
      = Completed (projr (calculate_performance_metrics (rsi_strategy [Fin 10] 14 30 70) 100000))
   \<and> max_drawdown (projr (calculate_performance_metrics (rsi_strategy [Fin 10] 14 30 70) 100000)) = NaN
   \<and> \<not> fl_le (max_drawdown (projr (calculate_performance_metrics (rsi_strategy [Fin 10] 14 30 70) 100000)))
          (Fin 0)
   \<and> 2 \<le> length falling_closes
   \<and> run_analysis (RSI_Stratejisi 5 30 70) falling_closes 0
      = Completed (projr (calculate_performance_metrics (rsi_strategy falling_closes 5 30 70) 0))
   \<and> max_drawdown (projr (calculate_performance_metrics (rsi_strategy falling_closes 5 30 70) 0)) = NaN"
proof -
  let ?d = "rsi_strategy [Fin 10] 14 30 70"
  let ?e = "rsi_strategy falling_closes 5 30 70"
  have ne: "?d \<noteq> []" "?e \<noteq> []" "falling_closes \<noteq> []" "2 \<le> length falling_closes"
      "\<not> untraded ?e 0"
    by code_simp+
  have "calculate_performance_metrics ?d 100000
           = Inr (projr (calculate_performance_metrics ?d 100000))"
    using ne(1) by (intro metrics_projr) simp_all
  then obtain m where m: "calculate_performance_metrics ?d 100000 = Inr m" ..
  have "calculate_performance_metrics ?e 0 = Inr (projr (calculate_performance_metrics ?e 0))"
    using ne(2,5) by (rule metrics_projr_traded)
  then obtain m' where m': "calculate_performance_metrics ?e 0 = Inr m'" ..
  have dd: "calc_max_drawdown (dropna (pct_change (portfolio_values ?d 100000))) = NaN"
      "calc_max_drawdown (dropna (pct_change (portfolio_values ?e 0))) = NaN"
    by code_simp+
  have r: "run_analysis (RSI_Stratejisi 14 30 70) [Fin 10] 100000 = Completed m"
      "run_analysis (RSI_Stratejisi 5 30 70) falling_closes 0 = Completed m'"
    using ne(3) by (simp_all add: run_analysis_Completed m m')
  from r metrics_fields(4) [OF m] metrics_fields(4) [OF m'] m m' dd ne(4) show ?thesis
    by (simp add: fl_le_def)
qed

text \<open>
  On a frame whose first bar is no buy signal the first two values are the capital, or
  the capital and a missing value that is filled with it: the first return is 0, the
  cumulative return starts at 1, and the drawdown series starts with 0.
\<close>

lemma buy_roundtrip:
  "fl_mul (fl_div (Fin cap) c) c = Fin cap \<or> fl_mul (fl_div (Fin cap) c) c = NaN"
  by (cases c) (auto simp: inf_of_sign_def)

lemma first_two_values:
  assumes "\<not> is_buy r0"
  shows "\<exists>v vs. portfolio_values (r0 # r1 # rest) cap = Fin cap # v # vs \<and> (v = Fin cap \<or> v = NaN)"
proof -
  have s0: "sim_step (init_state cap) r0 = init_state cap"
    using assms by (simp add: sim_step_def init_state_def)
  have v0: "bar_value (init_state cap) r0 = Fin cap"
    by (simp add: bar_value_def init_state_def)
  have "bar_value (sim_step (init_state cap) r1) r1 = Fin cap
      \<or> bar_value (sim_step (init_state cap) r1) r1 = NaN"
    using buy_roundtrip [of cap "Close r1"]
    by (auto simp: sim_step_def bar_value_def init_state_def)
  then show ?thesis
    by (auto simp: portfolio_values_def s0 v0)
qed

lemma first_return_zero:
  assumes "cap \<noteq> 0" and "v = Fin cap \<or> v = NaN"
  shows "\<exists>rs. dropna (pct_change (Fin cap # v # vs)) = Fin 0 # rs"
  using assms by (auto simp: pct_change_def ffill_def dropna_def fl_sub_def)

lemma drawdown_head: "\<exists>ds. drawdown (Fin 0 # rs) = Fin 0 # ds"
  by (simp add: drawdown_def Let_def cumprod_def expanding_max_def inf_as_nan_def nanmax_def fl_sub_def)

lemma nanmin_nonpos: "fl_le a (Fin 0) \<Longrightarrow> fl_le (nanmin a b) (Fin 0)"
  by (cases a; cases b) (auto simp: nanmin_def fl_le_def)

lemma foldl_nanmin_nonpos: "fl_le a (Fin 0) \<Longrightarrow> fl_le (foldl nanmin a xs) (Fin 0)"
  by (induction xs arbitrary: a) (simp_all add: nanmin_nonpos)

lemma series_min_head: "fl_le (series_min (Fin 0 # ds)) (Fin 0)"
proof -
  have "fl_le (nanmin NaN (Fin 0)) (Fin 0)" by (simp add: nanmin_def fl_le_def)
  then show ?thesis unfolding series_min_def by (simp add: foldl_nanmin_nonpos)
qed

lemma percent_nonpos: "fl_le x (Fin 0) \<Longrightarrow> fl_le (fl_mul x (Fin 100)) (Fin 0)"
  by (cases x) (auto simp: fl_le_def inf_of_sign_def mult_le_0_iff)

lemma max_drawdown_frame:
  assumes run: "calculate_performance_metrics data cap = Inr m"
    and len: "2 \<le> length data"
    and first: "\<not> is_buy (data ! 0)"
    and cap: "cap \<noteq> 0"
  shows "fl_le (max_drawdown m) (Fin 0)"
proof -
  from len obtain r0 r1 rest where d: "data = r0 # r1 # rest"
    by (cases data; cases "tl data") auto
  with first have "\<not> is_buy r0" by simp
  from first_two_values [OF this, of r1 rest cap] obtain v vs
    where pv: "portfolio_values data cap = Fin cap # v # vs" and v: "v = Fin cap \<or> v = NaN"
    unfolding d by blast
  from first_return_zero [OF cap v, of vs] obtain rs
    where r: "dropna (pct_change (portfolio_values data cap)) = Fin 0 # rs"
    unfolding pv by blast
  from drawdown_head [of rs] obtain ds where "drawdown (Fin 0 # rs) = Fin 0 # ds" ..
  then have "fl_le (calc_max_drawdown (Fin 0 # rs)) (Fin 0)"
    unfolding calc_max_drawdown_def by (simp add: percent_nonpos series_min_head)
  then show ?thesis by (simp add: metrics_fields(4) [OF run] r)
qed

text \<open>
  Claim C8, amended. For every input series with at least two bars and a non-zero
  initial capital, the maximum drawdown of a completed run is at most 0 (and so is not
  NaN), whatever the closes and the strategy.
\<close>

theorem max_drawdown_nonpositive:
  assumes "run_analysis strat closes cap = Completed m"
    and "2 \<le> length closes"
    and "cap \<noteq> 0"
  shows "fl_le (max_drawdown m) (Fin 0)"
proof -
  from assms(1) obtain data where ne: "closes \<noteq> []"
    and a: "apply_strategy strat closes = Inr data"
    and m: "calculate_performance_metrics data cap = Inr m"
    by (auto simp: run_analysis_Completed)
  from apply_strategy_first_bar [OF a ne] assms(2)
  have "2 \<le> length data" and "\<not> is_buy (data ! 0)"
    by (simp_all add: is_buy_def)
  with m show ?thesis using assms(3) by (rule max_drawdown_frame)
qed

theorem max_drawdown_nonpositive_witness:
  "run_analysis (MA_Crossover 1 2) open_trade_closes 100000
     = Completed (projr (calculate_performance_metrics open_trade_frame 100000))
   \<and> 2 \<le> length open_trade_closes
   \<and> (100000 :: real) \<noteq> 0
   \<and> max_drawdown (projr (calculate_performance_metrics open_trade_frame 100000)) = Fin (- (100 / 13))
   \<and> fl_le (max_drawdown (projr (calculate_performance_metrics open_trade_frame 100000))) (Fin 0)"
proof -
  have ne: "open_trade_frame \<noteq> []" "open_trade_closes \<noteq> []" by code_simp+
  have "calculate_performance_metrics open_trade_frame 100000
           = Inr (projr (calculate_performance_metrics open_trade_frame 100000))"
    using ne(1) by (intro metrics_projr) simp_all
  then obtain m where m: "calculate_performance_metrics open_trade_frame 100000 = Inr m" ..
  have ev: "ma_crossover_strategy open_trade_closes 1 2 = Inr open_trade_frame"
      "2 \<le> length open_trade_closes"
      "calc_max_drawdown (dropna (pct_change (portfolio_values open_trade_frame 100000)))
         = Fin (- (100 / 13))"
    by code_simp+
  have r: "run_analysis (MA_Crossover 1 2) open_trade_closes 100000 = Completed m"
    using ne(2) ev(1) m by (simp add: run_analysis_def)
  have cap: "(100000 :: real) \<noteq> 0" by simp
  from max_drawdown_nonpositive [OF r ev(2) cap] r m ev metrics_fields(4) [OF m]
  show ?thesis by simp
qed

section \<open>Signals of the strategies\<close>

lemma map_Signal_make_rows:
  "length signals = length closes \<Longrightarrow> map Signal (make_rows closes signals) = signals"
  by (simp add: list_eq_iff_nth_eq length_make_rows make_rows_nth)

lemma Signal_rsi_strategy:
  "i < length closes \<Longrightarrow>
   Signal (rsi_strategy closes p os ob ! i) = rsi_signal_of os ob (calculate_rsi closes p ! i)"
  by (simp add: rsi_strategy_def make_rows_nth length_rsi_signal rsi_signal_def length_calculate_rsi)

lemma list_all_Signal_make_rows:
  "length signals = length closes \<Longrightarrow>
   list_all (\<lambda>r. P (Signal r)) (make_rows closes signals) = list_all P signals"
proof -
  assume "length signals = length closes"
  from map_Signal_make_rows [OF this]
  have "list_all P (map Signal (make_rows closes signals)) = list_all P signals" by simp
  then show ?thesis by (simp add: list_all_iff)
qed

text \<open>
  Claim C6, as stated, fails: on a rising series the RSI is 100, above the overbought
  level, and the RSI strategy's Signal is -1, outside {0, 1}.
\<close>

theorem signal_values_counterexample:
  "calculate_rsi rising_closes 5 ! 4 = Fin 100
   \<and> Signal (rsi_strategy rising_closes 5 30 70 ! 4) = - 1"
  by code_simp

text \<open>
  Claim C6, amended. The crossover strategy's Signal is 0 or 1 at every bar; the RSI
  strategy's Signal is -1, 0 or 1 at every bar, -1 marking a bar above the overbought
  level.
\<close>

theorem signal_values:
  "list_all (\<lambda>r. Signal r = 0 \<or> Signal r = 1)
      (frame_of (ma_crossover_strategy closes short_period long_period))
   \<and> list_all (\<lambda>r. Signal r = - 1 \<or> Signal r = 0 \<or> Signal r = 1)
        (rsi_strategy closes rsi_period oversold overbought)
   \<and> list_all (\<lambda>(r, x). (Signal r = - 1) = fl_gt x (Fin overbought))
        (zip (rsi_strategy closes rsi_period oversold overbought) (calculate_rsi closes rsi_period))"
proof (intro conjI)
  show "list_all (\<lambda>r. Signal r = 0 \<or> Signal r = 1)
          (frame_of (ma_crossover_strategy closes short_period long_period))"
  proof (cases "ma_signal closes short_period long_period")
    case (Inl e)
    then show ?thesis by (simp add: ma_crossover_strategy_def frame_of_def)
  next
    case (Inr signals)
    from ma_signal_column(1,2) [OF Inr]
    have "list_all (\<lambda>r. Signal r = 0 \<or> Signal r = 1) (make_rows closes signals)"
      by (simp add: list_all_Signal_make_rows [where P = "\<lambda>s. s = 0 \<or> s = 1"])
    with Inr show ?thesis by (simp add: ma_crossover_strategy_def frame_of_def)
  qed
next
  have "list_all (\<lambda>s. s = - 1 \<or> s = 0 \<or> s = 1) (rsi_signal closes rsi_period oversold overbought)"
    by (simp add: rsi_signal_def rsi_signal_of_def list_all_length)
  then show "list_all (\<lambda>r. Signal r = - 1 \<or> Signal r = 0 \<or> Signal r = 1)
        (rsi_strategy closes rsi_period oversold overbought)"
    unfolding rsi_strategy_def
    by (simp add: list_all_Signal_make_rows [where P = "\<lambda>s. s = - 1 \<or> s = 0 \<or> s = 1"]
          length_rsi_signal)
next
  have len: "length (rsi_strategy closes rsi_period oversold overbought) = length closes"
    by (simp add: rsi_strategy_def length_make_rows length_rsi_signal)
  show "list_all (\<lambda>(r, x). (Signal r = - 1) = fl_gt x (Fin overbought))
        (zip (rsi_strategy closes rsi_period oversold overbought) (calculate_rsi closes rsi_period))"
    by (simp add: list_all_length len length_calculate_rsi Signal_rsi_strategy rsi_signal_of_def)
qed

text \<open>A direct flip of the RSI Signal from 1 to -1 gives Position -2, which is neither
  a buy nor a sell signal: the loop takes no action on that bar.\<close>

lemma rsi_flip_not_traded:
  "map Signal (rsi_strategy [Fin 10, Fin 9, Fin 10] 1 30 70) = [0, 1, - 1]
   \<and> map Position (rsi_strategy [Fin 10, Fin 9, Fin 10] 1 30 70) = [None, Some 1, Some (- 2)]
   \<and> sim_actions (init_state 100000) (rsi_strategy [Fin 10, Fin 9, Fin 10] 1 30 70) = [Hold, Enter, Hold]"
  by code_simp

text \<open>
  Claim C2, as stated, fails: after a fall the RSI is below the oversold level and the
  Signal is 1; on the next bar the RSI is 40, strictly between the levels 30 and 70,
  and the Signal is 0, not the previous bar's 1.
\<close>

theorem rsi_signal_persistence_counterexample:
  "calculate_rsi falling_closes 5 ! 7 = Fin 40
   \<and> Signal (rsi_strategy falling_closes 5 30 70 ! 6) = 1
   \<and> Signal (rsi_strategy falling_closes 5 30 70 ! 7) = 0"
  by code_simp

text \<open>
  Claim C2, amended. With oversold below overbought, the Signal at a bar is fixed by
  that bar's RSI alone: 1 below the oversold level, -1 above the overbought level, and
  0 at every bar whose RSI lies between the levels, whatever the Signal of the previous
  bar was. Nothing is carried from bar to bar.
\<close>

theorem rsi_signal_from_bar_alone:
  assumes "i < length closes" and "oversold < overbought"
    and "calculate_rsi closes rsi_period ! i = Fin r"
  shows "Signal (rsi_strategy closes rsi_period oversold overbought ! i)
           = (if r < oversold then 1 else if overbought < r then - 1 else 0)"
  using assms by (simp add: Signal_rsi_strategy rsi_signal_of_def fl_gt_def)

theorem rsi_signal_from_bar_alone_witness:
  "7 < length falling_closes \<and> (30::real) < 70 \<and> calculate_rsi falling_closes 5 ! 7 = Fin 40
   \<and> Signal (rsi_strategy falling_closes 5 30 70 ! 7) = 0"
proof -
  have a: "7 < length falling_closes" "calculate_rsi falling_closes 5 ! 7 = Fin 40" by code_simp+
  have b: "(30::real) < 70" by simp
  from rsi_signal_from_bar_alone [OF a(1) b a(2)] a b show ?thesis by simp
qed

section \<open>RSI on a window without losses\<close>

lemma rolling_mean_nth:
  "i < length xs \<Longrightarrow>
   rolling_mean p xs ! i =
     (if i + 1 < p then NaN
      else fl_div (fl_sum (take p (drop (i + 1 - p) xs))) (Fin (real p)))"
  by (simp add: rolling_mean_def)

lemma nonneg_or_inf_add:
  "nonneg_or_inf x \<Longrightarrow> nonneg_or_inf y \<Longrightarrow> nonneg_or_inf (fl_add x y)"
  by (cases x; cases y) (simp_all add: nonneg_or_inf_def)

lemma nonneg_or_inf_foldl:
  "nonneg_or_inf a \<Longrightarrow> list_all nonneg_or_inf xs \<Longrightarrow> nonneg_or_inf (foldl fl_add a xs)"
  by (induction xs arbitrary: a) (simp_all add: nonneg_or_inf_add)

lemma nonneg_or_inf_sum: "list_all nonneg_or_inf xs \<Longrightarrow> nonneg_or_inf (fl_sum xs)"
  unfolding fl_sum_def by (rule nonneg_or_inf_foldl) (simp_all add: nonneg_or_inf_def)

lemma nonneg_or_inf_window:
  "list_all nonneg_or_inf xs \<Longrightarrow> list_all nonneg_or_inf (take p (drop k xs))"
  by (auto simp: list_all_iff dest: in_set_takeD in_set_dropD)

lemma nonneg_or_inf_div: "nonneg_or_inf x \<Longrightarrow> 0 < p \<Longrightarrow> nonneg_or_inf (fl_div x (Fin (real p)))"
  by (cases x) (simp_all add: nonneg_or_inf_def)

lemma gains_nonneg_or_inf:
  "list_all nonneg_or_inf (map (\<lambda>d. if fl_gt d (Fin 0) then d else Fin 0) ds)"
proof -
  have "nonneg_or_inf (if fl_gt d (Fin 0) then d else Fin 0)" for d
    by (cases d) (simp_all add: nonneg_or_inf_def fl_gt_def)
  then show ?thesis by (simp add: list_all_length)
qed

lemma rsi_gain_nonneg_or_inf:
  assumes "i < length closes" and "0 < p" and "p \<le> i + 1"
  shows "nonneg_or_inf (rsi_gain closes p ! i)"
proof -
  let ?gains = "map (\<lambda>d. if fl_gt d (Fin 0) then d else Fin 0) (diff closes)"
  from assms(1) have i: "i < length ?gains" by (simp add: length_diff)
  have "nonneg_or_inf (fl_div (fl_sum (take p (drop (i + 1 - p) ?gains))) (Fin (real p)))"
    by (intro nonneg_or_inf_div nonneg_or_inf_sum nonneg_or_inf_window gains_nonneg_or_inf assms(2))
  with assms(3) show ?thesis
    unfolding rsi_gain_def rolling_mean_nth [OF i] by simp
qed

lemma rolling_mean_defined:
  assumes "i < length xs" and "rolling_mean p xs ! i = Fin v"
  shows "0 < p \<and> p \<le> i + 1"
proof -
  from assms have full: "\<not> i + 1 < p" by (auto simp: rolling_mean_nth split: if_splits)
  have "0 < p"
  proof (rule ccontr)
    assume "\<not> 0 < p"
    then have "p = 0" by simp
    with assms show False by (simp add: rolling_mean_nth fl_sum_def inf_of_sign_def)
  qed
  with full show ?thesis by simp
qed

lemma calculate_rsi_nth:
  "i < length closes \<Longrightarrow>
   calculate_rsi closes p ! i = rsi_of_rs (fl_div (rsi_gain closes p ! i) (rsi_loss closes p ! i))"
  by (simp add: calculate_rsi_def rsi_gain_def rsi_loss_def length_rolling_mean length_diff)

lemma rsi_of_rs_infinite: "rsi_of_rs PInf = Fin 100 \<and> rsi_of_rs NInf = Fin 100"
  by (simp add: rsi_of_rs_def fl_sub_def)

lemma rsi_zero_loss_value:
  "nonneg_or_inf g \<Longrightarrow> rsi_of_rs (fl_div g (Fin 0)) = (if g = Fin 0 then NaN else Fin 100)"
  by (cases g) (simp_all add: nonneg_or_inf_def rsi_of_rs_def fl_sub_def inf_of_sign_def)

text \<open>
  Claim C3, as stated, fails: on a series that never moves, the rolling means of losses
  and of gains are both zero and the RSI is NaN.
\<close>

theorem rsi_zero_loss_counterexample:
  "rsi_loss flat_closes 5 ! 5 = Fin 0 \<and> rsi_gain flat_closes 5 ! 5 = Fin 0
   \<and> calculate_rsi flat_closes 5 ! 5 = NaN"
  by code_simp

text \<open>
  Claim C3, amended. At a bar where the rolling mean of losses is zero, the RSI is 100
  when the rolling mean of gains is not zero as well, and NaN when it is (no price
  movement in the window).
\<close>

theorem rsi_zero_loss:
  assumes "i < length closes" and "rsi_loss closes period ! i = Fin 0"
  shows "calculate_rsi closes period ! i
           = (if rsi_gain closes period ! i = Fin 0 then NaN else Fin 100)"
proof -
  let ?losses = "map (\<lambda>d. fl_neg (if fl_lt d (Fin 0) then d else Fin 0)) (diff closes)"
  from assms(1) have "i < length ?losses" by (simp add: length_diff)
  moreover from assms(2) have "rolling_mean period ?losses ! i = Fin 0"
    by (simp add: rsi_loss_def)
  ultimately have "0 < period \<and> period \<le> i + 1" by (rule rolling_mean_defined)
  then have "nonneg_or_inf (rsi_gain closes period ! i)"
    using assms(1) by (simp add: rsi_gain_nonneg_or_inf)
  then show ?thesis
    by (simp add: calculate_rsi_nth [OF assms(1)] assms(2) rsi_zero_loss_value)
qed

theorem rsi_zero_loss_witness:
  "5 < length rising_closes \<and> rsi_loss rising_closes 5 ! 5 = Fin 0
   \<and> rsi_gain rising_closes 5 ! 5 = Fin 1
   \<and> calculate_rsi rising_closes 5 ! 5 = Fin 100"
proof -
  have a: "5 < length rising_closes" "rsi_loss rising_closes 5 ! 5 = Fin 0"
      "rsi_gain rising_closes 5 ! 5 = Fin 1"
    by code_simp+
  from rsi_zero_loss [OF a(1) a(2)] a show ?thesis by simp
qed

section \<open>Parameters outside their valid range\<close>

lemma apply_strategy_fits:
  "apply_strategy strat closes = Inl e \<longleftrightarrow> \<not> short_period_fits strat closes \<and> e = ValueError"
  by (cases strat) (auto simp: ma_crossover_strategy_def ma_signal_def split: sum.splits)

lemma run_analysis_raises:
  assumes "closes \<noteq> []" and "\<not> short_period_fits strat closes"
  shows "run_analysis strat closes cap = Failed ValueError"
proof -
  from assms(2) have "apply_strategy strat closes = Inl ValueError"
    by (simp add: apply_strategy_fits)
  with assms(1) show ?thesis by (simp add: run_analysis_def)
qed

lemma run_analysis_completes:
  assumes "closes \<noteq> []" and "cap \<noteq> 0" and "short_period_fits strat closes"
  shows "is_Completed (run_analysis strat closes cap)"
proof -
  from assms(3) obtain data where a: "apply_strategy strat closes = Inr data"
    using apply_strategy_fits [of strat closes] by (cases "apply_strategy strat closes") auto
  from apply_strategy_first_bar(1) [OF a assms(1)] assms(1) have "data \<noteq> []" by auto
  from metrics_exist [OF this assms(2)] obtain m
    where "calculate_performance_metrics data cap = Inr m" ..
  with a assms(1) show ?thesis by (simp add: run_analysis_def)
qed

text \<open>
  Claim C9, as stated, fails: with the short period above the long one, or with
  oversold above overbought, the run completes and returns metrics; the signals are
  computed from the parameters as they were given.
\<close>

theorem invalid_parameters_accepted_counterexample:
  "\<not> spec_valid_params (MA_Crossover 2 1)
   \<and> is_Completed (run_analysis (MA_Crossover 2 1) open_trade_closes 100000)
   \<and> ma_signal open_trade_closes 2 1 = Inr [0, 0, 0, 1, 0]
   \<and> \<not> spec_valid_params (RSI_Stratejisi 5 70 30)
   \<and> is_Completed (run_analysis (RSI_Stratejisi 5 70 30) falling_closes 100000)
   \<and> rsi_signal falling_closes 5 70 30 = [0, 0, 0, 0, 1, 1, 1, - 1]"
proof -
  have ne: "open_trade_closes \<noteq> []" "falling_closes \<noteq> []" by code_simp+
  have cap: "(100000 :: real) \<noteq> 0" by simp
  have fits: "short_period_fits (MA_Crossover 2 1) open_trade_closes"
      "short_period_fits (RSI_Stratejisi 5 70 30) falling_closes"
    by code_simp+
  have ev: "ma_signal open_trade_closes 2 1 = Inr [0, 0, 0, 1, 0]"
     "rsi_signal falling_closes 5 70 30 = [0, 0, 0, 0, 1, 1, 1, - 1]"
    by code_simp+
  from run_analysis_completes [OF ne(1) cap fits(1)] run_analysis_completes [OF ne(2) cap fits(2)] ev
  show ?thesis by simp
qed

text \<open>
  Claim C9, amended. No parameter is validated. For every parameter set, valid or not,
  the run on a non-empty series with a non-zero capital completes with a metrics
  record, with one exception that has nothing to do with validity: a short period of
  the crossover strategy above the number of bars makes the slice assignment raise
  \<^verbatim>\<open>ValueError\<close>, whatever the long period, and the run reports the failure.
\<close>

theorem parameters_never_validated:
  assumes "closes \<noteq> []" and "cap \<noteq> 0"
  shows "(is_Completed (run_analysis strat closes cap) \<longleftrightarrow> short_period_fits strat closes)
       \<and> (\<not> short_period_fits strat closes \<longrightarrow> run_analysis strat closes cap = Failed ValueError)"
proof (cases "short_period_fits strat closes")
  case True
  with run_analysis_completes [OF assms True] show ?thesis by simp
next
  case False
  with run_analysis_raises [OF assms(1) False, of cap] show ?thesis by simp
qed

theorem parameters_never_validated_witness:
  "open_trade_closes \<noteq> [] \<and> (100000 :: real) \<noteq> 0
   \<and> \<not> spec_valid_params (MA_Crossover 2 1)
   \<and> short_period_fits (MA_Crossover 2 1) open_trade_closes
   \<and> is_Completed (run_analysis (MA_Crossover 2 1) open_trade_closes 100000)
   \<and> \<not> short_period_fits (MA_Crossover 50 20) open_trade_closes
   \<and> run_analysis (MA_Crossover 50 20) open_trade_closes 100000 = Failed ValueError"
proof -
  have ne: "open_trade_closes \<noteq> []" by code_simp
  have cap: "(100000 :: real) \<noteq> 0" by simp
  have fits: "short_period_fits (MA_Crossover 2 1) open_trade_closes"
    "\<not> short_period_fits (MA_Crossover 50 20) open_trade_closes"
    by code_simp+
  from parameters_never_validated [OF ne cap, of "MA_Crossover 2 1"]
    parameters_never_validated [OF ne cap, of "MA_Crossover 50 20"] ne fits
  show ?thesis by simp
qed

section \<open>Position and Signal under the crossover strategy\<close>

text \<open>
  On a Signal column of zeros and ones that starts at 0, the position the loop holds
  after a bar is that bar's Signal. The crossover strategy with a short period of at
  least one bar produces such a column, so there the flat and long bars of the
  simulator are the bars with Signal 0 and Signal 1. The RSI strategy's column, with
  its -1, is not of this kind.
\<close>

lemma state_before_Suc:
  "i < length data \<Longrightarrow> state_before cap data (Suc i) = state_after cap data i"
  by (simp add: state_before_def state_after_def)

lemma state_after_step:
  "i < length data \<Longrightarrow> state_after cap data i = sim_step (state_before cap data i) (data ! i)"
  unfolding state_after_def state_before_def by (rule sim_states_nth)

lemma position_follows_binary_signal:
  assumes len: "length signals = length closes"
    and bin: "list_all (\<lambda>s. s = 0 \<or> s = 1) signals"
    and first: "signals ! 0 = 0"
    and i: "i < length closes"
  shows "position (state_after cap (make_rows closes signals) i) = signals ! i"
  using i
proof (induction i)
  case 0
  then have "Position (make_rows closes signals ! 0) = None"
    by (simp add: make_rows_nth len)
  with 0 first show ?case
    by (simp add: state_after_step length_make_rows len state_before_def init_state_def
        sim_step_def is_buy_def is_sell_def)
next
  case (Suc j)
  let ?rows = "make_rows closes signals"
  from Suc.prems have j: "j < length closes" by simp
  with Suc.IH have prev: "position (state_after cap ?rows j) = signals ! j" by simp
  from bin Suc.prems len have a: "signals ! Suc j = 0 \<or> signals ! Suc j = 1"
    by (simp add: list_all_length)
  from bin j len have b: "signals ! j = 0 \<or> signals ! j = 1"
    by (simp add: list_all_length)
  have row: "Position (?rows ! Suc j) = Some (signals ! Suc j - signals ! j)"
    using Suc.prems by (simp add: make_rows_nth len)
  have "state_after cap ?rows (Suc j) = sim_step (state_after cap ?rows j) (?rows ! Suc j)"
    using Suc.prems j by (simp add: state_after_step state_before_Suc length_make_rows len)
  with prev a b row show ?case
    by (auto simp: sim_step_def is_buy_def is_sell_def)
qed

lemma ma_position_is_signal:
  assumes "ma_crossover_strategy closes short_period long_period = Inr data"
    and "0 < short_period" and "i < length closes"
  shows "position (state_after cap data i) = Signal (data ! i)"
proof -
  from assms(1) obtain signals where s: "ma_signal closes short_period long_period = Inr signals"
    and d: "data = make_rows closes signals"
    by (auto simp: ma_crossover_strategy_def split: sum.splits)
  note col = ma_signal_column [OF s]
  from position_follows_binary_signal [OF col(1,2) col(3) [OF assms(2)] assms(3)] assms(3) col(1)
  show ?thesis by (simp add: d make_rows_nth)
qed

end
